theory Spec2Isabelle
  imports Complex_Main "HOL-Library.Sublist"
begin

section \<open>Python values\<close>

text \<open>
  A Python \<open>str\<close> is a sequence of Unicode code points, so a string is a list of
  naturals; \<open>lit\<close> reads an ASCII literal of the source. The characters of the source
  outside ASCII are given by their code points.
\<close>

type_synonym str = "nat list"

definition lit :: "string \<Rightarrow> str" where
  "lit s = map of_char s"

text \<open>\<open>str.isspace\<close> of one character: the code points Python treats as whitespace.\<close>

definition isspace :: "nat \<Rightarrow> bool" where
  "isspace c \<longleftrightarrow>
     (9 \<le> c \<and> c \<le> 13) \<or> (28 \<le> c \<and> c \<le> 32) \<or> c = 133 \<or> c = 160 \<or> c = 5760 \<or>
     (8192 \<le> c \<and> c \<le> 8202) \<or> c = 8232 \<or> c = 8233 \<or> c = 8239 \<or> c = 8287 \<or> c = 12288"

definition lstrip :: "str \<Rightarrow> str" where
  "lstrip s = dropWhile isspace s"

definition rstrip :: "str \<Rightarrow> str" where
  "rstrip s = rev (dropWhile isspace (rev s))"

text \<open>\<open>s.strip()\<close>\<close>

definition strip :: "str \<Rightarrow> str" where
  "strip s = rstrip (lstrip s)"

text \<open>\<open>t in s\<close> for two strings: \<open>t\<close> starts at some position of \<open>s\<close>.\<close>

fun str_in :: "str \<Rightarrow> str \<Rightarrow> bool" where
  "str_in t [] = (t = [])"
| "str_in t (c # cs) = (prefix t (c # cs) \<or> str_in t cs)"

text \<open>\<open>sep.join(xs)\<close>\<close>

fun join :: "str \<Rightarrow> str list \<Rightarrow> str" where
  "join sep [] = []"
| "join sep [x] = x"
| "join sep (x # y # ys) = x @ sep @ join sep (y # ys)"

text \<open>
  The values \<open>json.dump\<close> writes: \<open>None\<close>, a bool, an int, a float, a str, a list, a
  tuple, or a dict with string keys (in insertion order). \<open>json.load\<close> returns the same
  values, except that it never returns a tuple.
\<close>

datatype json =
    JNull
  | JBool bool
  | JInt int
  | JFloat real
  | JStr str
  | JArr "json list"
  | JTuple "json list"
  | JObj "(str \<times> json) list"

text \<open>The truth value of an object in \<open>if x:\<close>.\<close>

fun truthy :: "json \<Rightarrow> bool" where
  "truthy JNull = False"
| "truthy (JBool b) = b"
| "truthy (JInt i) = (i \<noteq> 0)"
| "truthy (JFloat r) = (r \<noteq> 0)"
| "truthy (JStr s) = (s \<noteq> [])"
| "truthy (JArr xs) = (xs \<noteq> [])"
| "truthy (JTuple xs) = (xs \<noteq> [])"
| "truthy (JObj kvs) = (kvs \<noteq> [])"

text \<open>
  The exceptions of the model are instances of \<open>Exception\<close>: the two the code can raise
  on its own data, and any failure \<open>Failure msg\<close> of a library call.
\<close>

datatype exn = AttributeError | TypeError | Failure str

text \<open>
  \<open>for entry in x\<close>: a list or a tuple gives its elements, a dict its keys, a str its
  characters; nothing else is iterable.
\<close>

fun iterate :: "json \<Rightarrow> exn + json list" where
  "iterate (JArr xs) = Inr xs"
| "iterate (JTuple xs) = Inr xs"
| "iterate (JObj kvs) = Inr (map (\<lambda>kv. JStr (fst kv)) kvs)"
| "iterate (JStr s) = Inr (map (\<lambda>c. JStr [c]) s)"
| "iterate _ = Inl TypeError"

section \<open>services/qa\_agent.py: ConciergeBot\<close>

text \<open>
  The answer of \<open>llm.invoke\<close>: an object with a \<open>content\<close> attribute, which is a str or
  something without a \<open>strip\<close> method (a list of content blocks), or an object without
  that attribute, of which only \<open>str(response)\<close> is used.
\<close>

datatype content = Text str | Blocks

datatype response = Message content | Opaque str

text \<open>
  The fields of \<open>self\<close> that \<open>ask\<close> uses. The retriever and the model are outside the
  repository: \<open>retriever q\<close> is \<open>self.retriever.invoke(q)\<close>, the \<open>page_content\<close> of the
  documents found or the exception raised, and \<open>llm p\<close> is \<open>self.llm.invoke(p)\<close>.
\<close>

record ConciergeBot =
  retriever :: "str option \<Rightarrow> exn + str list"
  llm :: "str \<Rightarrow> exn + response"
  dos_donts :: json

text \<open>The calls \<open>ask\<close> makes to the retriever and to the model, in order.\<close>

datatype call = Retrieve "str option" | Invoke str

text \<open>\<open>entry.get(key, "").strip()\<close>\<close>

fun get_strip :: "json \<Rightarrow> str \<Rightarrow> exn + str" where
  "get_strip (JObj kvs) key =
     (case map_of kvs key of
        None \<Rightarrow> Inr (strip [])
      | Some (JStr s) \<Rightarrow> Inr (strip s)
      | Some _ \<Rightarrow> Inl AttributeError)"
| "get_strip _ key = Inl AttributeError"

definition rules_header :: str where
  "rules_header = lit ''\<newline>\<newline>'' @ [0x1F4CB] @ lit '' **Important Communication Rules:**\<newline>''"

definition do_line :: "str \<Rightarrow> str" where
  "do_line d = lit ''- '' @ [0x2705] @ lit '' Do: '' @ d @ lit ''\<newline>''"

definition dont_line :: "str \<Rightarrow> str" where
  "dont_line d = lit ''- '' @ [0x274C] @ lit '' Don't: '' @ d @ lit ''\<newline>''"

text \<open>The loop of \<open>_build_prompt\<close> over the entries, \<open>rules_text\<close> being the text so far.\<close>

fun rules_loop :: "json list \<Rightarrow> str \<Rightarrow> exn + str" where
  "rules_loop [] rules_text = Inr rules_text"
| "rules_loop (entry # entries) rules_text =
     (case get_strip entry (lit ''do'') of
        Inl e \<Rightarrow> Inl e
      | Inr do \<Rightarrow>
          (case get_strip entry (lit ''dont'') of
             Inl e \<Rightarrow> Inl e
           | Inr dont \<Rightarrow>
               (let t1 = (if do \<noteq> [] then rules_text @ do_line do else rules_text);
                    t2 = (if dont \<noteq> [] then t1 @ dont_line dont else t1)
                in rules_loop entries t2)))"

definition preamble :: str where
  "preamble =
     lit ''You are a knowledgeable, polite, and concise concierge assistant at *ILLORA RETREATS*, ''
   @ lit ''a premium hotel known for elegant accommodations, gourmet dining, rejuvenating spa treatments, ''
   @ lit ''a fully-equipped gym, pool access, 24x7 room service, meeting spaces, and personalized hospitality.\<newline>\<newline>''
   @ lit ''Answer strictly using the Hotel Data below. If the data does not contain the answer, say: ''
   @ [39] @ lit ''I don'' @ [0x2019] @ lit ''t have that information in the hotel data yet.'' @ [39]
   @ lit ''\<newline>\<newline>''"

text \<open>\<open>f"{query}"\<close>: the query itself, or the text \<open>None\<close>.\<close>

definition format_query :: "str option \<Rightarrow> str" where
  "format_query query = (case query of None \<Rightarrow> lit ''None'' | Some q \<Rightarrow> q)"

definition rules_text_of :: "json \<Rightarrow> exn + str" where
  "rules_text_of dd =
     (if truthy dd then
        (case iterate dd of
           Inl e \<Rightarrow> Inl e
         | Inr entries \<Rightarrow> rules_loop entries rules_header)
      else Inr [])"

definition build_prompt :: "json \<Rightarrow> str \<Rightarrow> str option \<Rightarrow> exn + str" where
  "build_prompt dd hotel_data query =
     (case rules_text_of dd of
        Inl e \<Rightarrow> Inl e
      | Inr rules_text \<Rightarrow>
          Inr (preamble
               @ lit ''Hotel Data:\<newline>'' @ hotel_data @ lit ''\<newline>\<newline>''
               @ lit ''Guest Query: '' @ format_query query @ lit ''\<newline>''
               @ rules_text))"

definition restricted_services :: "str list" where
  "restricted_services =
     [lit ''wake-up call'', lit ''spa'', lit ''gym'', lit ''pool'', lit ''room service'',
      lit ''book a room'', lit ''booking'']"

definition refusal :: str where
  "refusal =
     lit ''We're sorry, this service is exclusive to *guests* at ILLORA RETREATS.\<newline>''
   @ lit ''Feel free to explore our dining options, events, and lobby amenities!''"

definition stand_in :: str where
  "stand_in = lit ''I'm here to help with any questions about ILLORA RETREATS.''"

definition fallback :: str where
  "fallback =
     lit ''We're sorry, there was an issue while assisting you. ''
   @ lit ''Please feel free to ask again or contact the ILLORA RETREATS front desk for immediate help.''"

text \<open>\<open>(query or "").lower()\<close>; \<open>lower\<close> is \<open>str.lower\<close>.\<close>

definition lower_query :: "(str \<Rightarrow> str) \<Rightarrow> str option \<Rightarrow> str" where
  "lower_query lower query = lower (case query of None \<Rightarrow> [] | Some q \<Rightarrow> q)"

text \<open>The test of the first \<open>if\<close> of \<open>ask\<close>.\<close>

definition blocked :: "(str \<Rightarrow> str) \<Rightarrow> str option \<Rightarrow> str option \<Rightarrow> bool" where
  "blocked lower query user_type \<longleftrightarrow>
     user_type = Some (lit ''non-guest'') \<and>
     list_ex (\<lambda>term. str_in term (lower_query lower query)) restricted_services"

text \<open>
  \<open>response.content.strip() if hasattr(response, "content") else str(response)\<close>
\<close>

fun final_answer :: "response \<Rightarrow> exn + str" where
  "final_answer (Message (Text s)) = Inr (strip s)"
| "final_answer (Message Blocks) = Inl AttributeError"
| "final_answer (Opaque s) = Inr s"

text \<open>
  The body of the \<open>try\<close> of \<open>ask\<close>: the value returned or the exception raised, and the
  calls made.
\<close>

definition ask_try ::
  "(str \<Rightarrow> str) \<Rightarrow> ConciergeBot \<Rightarrow> str option \<Rightarrow> str option \<Rightarrow> (exn + str) \<times> call list" where
  "ask_try lower self query user_type =
     (if blocked lower query user_type then (Inr refusal, [])
      else
        (case retriever self query of
           Inl e \<Rightarrow> (Inl e, [Retrieve query])
         | Inr docs \<Rightarrow>
             (let hotel_data = (if docs \<noteq> [] then join (lit ''\<newline>\<newline>'') docs else [])
              in case build_prompt (dos_donts self) hotel_data query of
                   Inl e \<Rightarrow> (Inl e, [Retrieve query])
                 | Inr system_prompt \<Rightarrow>
                     (case llm self system_prompt of
                        Inl e \<Rightarrow> (Inl e, [Retrieve query, Invoke system_prompt])
                      | Inr response \<Rightarrow>
                          (case final_answer response of
                             Inl e \<Rightarrow> (Inl e, [Retrieve query, Invoke system_prompt])
                           | Inr answer \<Rightarrow>
                               (Inr (if answer \<noteq> [] then answer else stand_in),
                                [Retrieve query, Invoke system_prompt]))))))"

text \<open>
  \<open>ask\<close>: the \<open>except Exception\<close> clause turns every exception into the fallback.
  Logging and printing are taken not to raise.
\<close>

definition ask :: "(str \<Rightarrow> str) \<Rightarrow> ConciergeBot \<Rightarrow> str option \<Rightarrow> str option \<Rightarrow> str" where
  "ask lower self query user_type =
     (case fst (ask_try lower self query user_type) of
        Inl e \<Rightarrow> fallback
      | Inr answer \<Rightarrow> answer)"



section \<open>dashboard.py\<close>

text \<open>
  The files are a map from paths to their text; an existing file can be opened. The
  functions of \<open>json\<close>, \<open>pandas\<close> and \<open>datetime\<close> that the dashboard calls are
  outside the repository and are the fields of \<open>pylib\<close>:
  \<open>json_dump v\<close> is the text \<open>json.dump(v, f, indent=2)\<close> writes, \<open>json_load s\<close> is
  \<open>json.load(f)\<close> on a file with text \<open>s\<close>, \<open>None\<close> when it raises;
  \<open>to_csv df\<close> is the text \<open>df.to_csv(path, index=False)\<close> writes and \<open>read_csv s\<close> is
  \<open>pd.read_csv(path)\<close> on a file with text \<open>s\<close>.
\<close>

type_synonym files = "str \<rightharpoonup> str"

text \<open>A \<open>DataFrame\<close>: its columns and its rows, a row giving the value of some columns.\<close>

type_synonym row = "(str \<times> json) list"

record dataframe =
  columns :: "str list"
  rows :: "row list"

record ('d, 't) pylib =
  json_dump :: "json \<Rightarrow> str"
  json_load :: "str \<Rightarrow> json option"
  to_csv :: "dataframe \<Rightarrow> str"
  read_csv :: "str \<Rightarrow> exn + dataframe"
  date_isoformat :: "'d \<Rightarrow> str"
  datetime_isoformat :: "'t \<Rightarrow> str"


text \<open>
  \<open>load_json\<close> returns the value loaded and the files, which it changes when the file
  did not exist; \<open>dflt\<close> is its argument \<open>default\<close>. The file exists when it is opened
  for reading, in \<open>load_json\<close> and in \<open>ensure_csv\<close>, so the case \<open>None\<close> of the second
  step is never taken.
\<close>

definition load_json :: "('d, 't) pylib \<Rightarrow> str \<Rightarrow> json \<Rightarrow> files \<Rightarrow> json \<times> files" where
  "load_json lib path dflt fs =
     (let fs1 = (if fs path = None then fs(path \<mapsto> json_dump lib dflt) else fs)
      in case fs1 path of
           None \<Rightarrow> (dflt, fs1)
         | Some s \<Rightarrow>
             (case json_load lib s of
                Some v \<Rightarrow> (v, fs1)
              | None \<Rightarrow> (dflt, fs1)))"

definition save_json :: "('d, 't) pylib \<Rightarrow> str \<Rightarrow> json \<Rightarrow> files \<Rightarrow> files" where
  "save_json lib path data fs = fs(path \<mapsto> json_dump lib data)"

definition ensure_csv ::
  "('d, 't) pylib \<Rightarrow> str \<Rightarrow> str list \<Rightarrow> files \<Rightarrow> (exn + dataframe) \<times> files" where
  "ensure_csv lib path cols fs =
     (let fs1 = (if fs path = None then fs(path \<mapsto> to_csv lib \<lparr>columns = cols, rows = []\<rparr>)
                 else fs)
      in case fs1 path of
           None \<Rightarrow> (Inl (Failure (lit ''FileNotFoundError'')), fs1)
         | Some s \<Rightarrow> (read_csv lib s, fs1))"

text \<open>\<open>ConciergeBot._load_dos_donts\<close>, of qa\_agent.py, reads the same kind of file.\<close>

definition load_dos_donts :: "('d, 't) pylib \<Rightarrow> str \<Rightarrow> files \<Rightarrow> json" where
  "load_dos_donts lib dos_donts_path fs =
     (case fs dos_donts_path of
        None \<Rightarrow> JArr []
      | Some s \<Rightarrow>
          (case json_load lib s of
             Some v \<Rightarrow> v
           | None \<Rightarrow> JArr []))"

definition QA_CSV :: str where
  "QA_CSV = lit ''data'' @ [92] @ lit ''qa_pairs.csv''"


definition DOSDONTS_FILE :: str where
  "DOSDONTS_FILE = lit ''data'' @ [92] @ lit ''dos_donts.json''"

text \<open>What a form shows after it is submitted.\<close>

datatype notice = Success str | Warning str

subsection \<open>Analytics tab: parsing the log\<close>

text \<open>\<open>s.split(sep)\<close> for a separator of one character.\<close>

fun split_on :: "nat \<Rightarrow> str \<Rightarrow> str list" where
  "split_on sep [] = [[]]"
| "split_on sep (c # cs) =
     (if c = sep then [] # split_on sep cs
      else (case split_on sep cs of
              [] \<Rightarrow> [[c]]
            | p # ps \<Rightarrow> (c # p) # ps))"

text \<open>
  The pattern \<open>Intent: (.+)\<close> at the start of \<open>s\<close>: the literal text, then the longest
  run of characters other than the newline, which must not be empty; the result is the
  group.
\<close>

definition intent_match :: "str \<Rightarrow> str option" where
  "intent_match s =
     (if prefix (lit ''Intent: '') s then
        (let g = takeWhile (\<lambda>c. c \<noteq> 10) (drop 8 s)
         in if g \<noteq> [] then Some g else None)
      else None)"

text \<open>\<open>re.search(r"Intent: (.+)", line)\<close>: the match at the leftmost position that has one.\<close>

fun intent_search :: "str \<Rightarrow> str option" where
  "intent_search [] = None"
| "intent_search (c # cs) =
     (case intent_match (c # cs) of
        Some g \<Rightarrow> Some g
      | None \<Rightarrow> intent_search cs)"

text \<open>
  The loop over the lines of the log file; \<open>log_lines\<close> is the list built so far.
\<close>

fun parse_log :: "str list \<Rightarrow> str list list \<Rightarrow> str list list" where
  "parse_log [] log_lines = log_lines"
| "parse_log (line # f) log_lines =
     (let parts = map strip (split_on 124 (strip line))
      in if length parts \<ge> 8 then
           (let timestamp = parts ! 0;
                source = parts ! 3;
                session_id = parts ! 4;
                user_input = parts ! 5;
                response = parts ! 6;
                guest_type = parts ! 7;
                intent = (case intent_search line of
                            Some g \<Rightarrow> g
                          | None \<Rightarrow> lit ''Unknown'')
            in parse_log f
                 (log_lines @ [[timestamp, source, session_id, user_input, response, intent, guest_type]]))
         else parse_log f log_lines)"

text \<open>
  The same rows in the words of the specification: split the line on the bar, strip
  the parts, keep the lines with at least 8 parts, take the fields from their positions.
\<close>

definition line_parts :: "str \<Rightarrow> str list" where
  "line_parts line = map strip (split_on 124 line)"

definition line_intent :: "str \<Rightarrow> str" where
  "line_intent line = (case intent_search line of Some g \<Rightarrow> g | None \<Rightarrow> lit ''Unknown'')"

definition line_row :: "str \<Rightarrow> str list" where
  "line_row line =
     [line_parts line ! 0, line_parts line ! 3, line_parts line ! 4, line_parts line ! 5,
      line_parts line ! 6, line_intent line, line_parts line ! 7]"

definition spec_rows :: "str list \<Rightarrow> str list list" where
  "spec_rows f = map line_row (filter (\<lambda>line. length (line_parts line) \<ge> 8) f)"

subsection \<open>Q\&A Manager tab\<close>



subsection \<open>Campaigns Manager tab\<close>





subsection \<open>Do's and Don'ts Manager tab\<close>

text \<open>
  The form \<open>add_dos_donts\<close>; \<open>dos_donts_list\<close> is the variable \<open>dos_donts\<close> of the
  script. Only a list has \<open>append\<close>.
\<close>

definition submit_add_dos_donts ::
  "('d, 't) pylib \<Rightarrow> str \<Rightarrow> str \<Rightarrow> json \<Rightarrow> files \<Rightarrow> exn + json \<times> files \<times> notice" where
  "submit_add_dos_donts lib do_text dont_text dos_donts_list fs =
     (if strip do_text \<noteq> [] \<or> strip dont_text \<noteq> [] then
        (let new_entry = JObj [(lit ''do'', JStr (strip do_text)), (lit ''dont'', JStr (strip dont_text))]
         in case dos_donts_list of
              JArr ds \<Rightarrow>
                (let dos_donts_list1 = JArr (ds @ [new_entry])
                 in Inr (dos_donts_list1, save_json lib DOSDONTS_FILE dos_donts_list1 fs,
                         Success (lit ''Instruction added successfully!'')))
            | _ \<Rightarrow> Inl AttributeError)
      else Inr (dos_donts_list, fs, Warning (lit ''Please fill at least one field.'')))"

definition dos_donts_tab ::
  "('d, 't) pylib \<Rightarrow> (str \<times> str) option \<Rightarrow> files \<Rightarrow> exn + json \<times> files \<times> notice option" where
  "dos_donts_tab lib submitted fs =
     (case load_json lib DOSDONTS_FILE (JArr []) fs of
        (dos_donts_list, fs1) \<Rightarrow>
          (case submitted of
             None \<Rightarrow> Inr (dos_donts_list, fs1, None)
           | Some (do_text, dont_text) \<Rightarrow>
               (case submit_add_dos_donts lib do_text dont_text dos_donts_list fs1 of
                  Inl e \<Rightarrow> Inl e
                | Inr (dos_donts_list1, fs2, n) \<Rightarrow> Inr (dos_donts_list1, fs2, Some n))))"

section \<open>The claims in the words of the specification\<close>

subsection \<open>The rules section of the prompt\<close>






section \<open>Example inputs\<close>


text \<open>
  A library for the examples. It writes five values and reads their texts as \<open>json\<close>
  does (the empty tuple is written as the empty list is, and read as a list), and writes
  nothing for another value; its CSV text has one line for the columns and one for each
  row, for cells without commas, quotes or newlines; a date and a time are given by their
  ISO text.
\<close>

definition sample_documents :: "(json \<times> str) list" where
  "sample_documents =
     [(JArr [], lit ''[]''), (JTuple [], lit ''[]''), (JObj [], lit ''{}''), (JNull, lit ''null''),
      (JBool True, lit ''true'')]"

definition sample_json_dump :: "json \<Rightarrow> str" where
  "sample_json_dump v = (case map_of sample_documents v of Some t \<Rightarrow> t | None \<Rightarrow> [])"

definition sample_json_load :: "str \<Rightarrow> json option" where
  "sample_json_load s = map_of (map (\<lambda>(v, t). (t, v)) sample_documents) s"

definition sample_to_csv :: "dataframe \<Rightarrow> str" where
  "sample_to_csv df =
     concat (map (\<lambda>line. line @ [10])
       (join [44] (columns df)
        # map (\<lambda>r. join [44] (map (\<lambda>c. case map_of r c of Some (JStr s) \<Rightarrow> s | _ \<Rightarrow> []) (columns df)))
            (rows df)))"

definition sample_read_csv :: "str \<Rightarrow> exn + dataframe" where
  "sample_read_csv s =
     (case filter (\<lambda>l. l \<noteq> []) (split_on 10 s) of
        [] \<Rightarrow> Inl (Failure (lit ''EmptyDataError''))
      | h # ls \<Rightarrow>
          Inr \<lparr>columns = split_on 44 h,
               rows = map (\<lambda>l. zip (split_on 44 h) (map JStr (split_on 44 l))) ls\<rparr>)"

definition sample_lib :: "(str, str) pylib" where
  "sample_lib =
     \<lparr>json_dump = sample_json_dump, json_load = sample_json_load,
      to_csv = sample_to_csv, read_csv = sample_read_csv,
      date_isoformat = (\<lambda>d. d), datetime_isoformat = (\<lambda>t. t)\<rparr>"


text \<open>
  Three lines of a log: an interaction with its intent, a line that is not an
  interaction, and an interaction without an intent.
\<close>

definition sample_log :: "str list" where
  "sample_log =
     [lit ''t0 | INFO | bot | web | s1 | hi | hello | Guest | Intent: greet\<newline>'',
      lit ''t1 | INFO | started\<newline>'',
      lit '' t2|WARN|bot|sms|s2|pool?|9am|Non-Guest '']"

section \<open>Strings\<close>


section \<open>ConciergeBot.ask\<close>















subsection \<open>The pipeline and its exceptions\<close>

















section \<open>ConciergeBot.\_build\_prompt\<close>








section \<open>The files and the forms of the dashboard\<close>






text \<open>
  C7: \<open>load_json\<close> creates the file with the default when it does not exist, leaves an
  existing file as it is, and returns the default when the text of the file does not parse;
  \<open>ensure_csv\<close> creates the CSV of an empty frame with the given columns when the file
  does not exist, and returns what \<open>read_csv\<close> makes of the file; \<open>_load_dos_donts\<close>
  returns the empty list when its file is missing or does not parse.
\<close>

theorem loaders_default:
  "(fs path = None \<longrightarrow> snd (load_json lib path d fs) = fs(path \<mapsto> json_dump lib d))
   \<and> (fs path \<noteq> None \<longrightarrow> snd (load_json lib path d fs) = fs)
   \<and> (snd (load_json lib path d fs) path = Some s \<and> json_load lib s = None
        \<longrightarrow> fst (load_json lib path d fs) = d)
   \<and> (fs path = None \<longrightarrow>
        ensure_csv lib path cols fs =
          (read_csv lib (to_csv lib \<lparr>columns = cols, rows = []\<rparr>),
           fs(path \<mapsto> to_csv lib \<lparr>columns = cols, rows = []\<rparr>)))
   \<and> (fs path = Some s \<longrightarrow> ensure_csv lib path cols fs = (read_csv lib s, fs))
   \<and> (fs path = None \<longrightarrow> load_dos_donts lib path fs = JArr [])
   \<and> (fs path = Some s \<and> json_load lib s = None \<longrightarrow> load_dos_donts lib path fs = JArr [])"
  by (auto simp: load_json_def ensure_csv_def load_dos_donts_def Let_def split: option.splits)


lemma sample_dump_empty: "json_dump sample_lib (JArr []) = lit ''[]''"
  by (simp add: sample_lib_def sample_json_dump_def sample_documents_def)

lemma sample_load_garbage: "json_load sample_lib (lit ''oops'') = None"
  by (simp add: sample_lib_def sample_json_load_def sample_documents_def lit_def)

theorem loaders_default_witness:
  "snd (load_json sample_lib DOSDONTS_FILE (JArr []) Map.empty) = [DOSDONTS_FILE \<mapsto> lit ''[]'']
   \<and> snd (load_json sample_lib DOSDONTS_FILE (JArr []) [DOSDONTS_FILE \<mapsto> lit ''oops''])
       = [DOSDONTS_FILE \<mapsto> lit ''oops'']
   \<and> fst (load_json sample_lib DOSDONTS_FILE (JArr []) [DOSDONTS_FILE \<mapsto> lit ''oops'']) = JArr []
   \<and> ensure_csv sample_lib QA_CSV [lit ''question'', lit ''answer''] Map.empty =
       (read_csv sample_lib (to_csv sample_lib \<lparr>columns = [lit ''question'', lit ''answer''], rows = []\<rparr>),
        [QA_CSV \<mapsto> to_csv sample_lib \<lparr>columns = [lit ''question'', lit ''answer''], rows = []\<rparr>])
   \<and> ensure_csv sample_lib QA_CSV [lit ''question'', lit ''answer''] [QA_CSV \<mapsto> lit ''oops'']
       = (read_csv sample_lib (lit ''oops''), [QA_CSV \<mapsto> lit ''oops''])
   \<and> load_dos_donts sample_lib DOSDONTS_FILE Map.empty = JArr []
   \<and> load_dos_donts sample_lib DOSDONTS_FILE [DOSDONTS_FILE \<mapsto> lit ''oops''] = JArr []"
proof -
  let ?g = "[DOSDONTS_FILE \<mapsto> lit ''oops'']"
  let ?q = "[QA_CSV \<mapsto> lit ''oops'']"
  let ?cols = "[lit ''question'', lit ''answer'']"
  have g: "?g DOSDONTS_FILE = Some (lit ''oops'')" "?g DOSDONTS_FILE \<noteq> None" by simp_all
  have q: "?q QA_CSV = Some (lit ''oops'')" by simp
  have e: "Map.empty DOSDONTS_FILE = None" "Map.empty QA_CSV = None" by simp_all
  note L0 = loaders_default [of Map.empty DOSDONTS_FILE sample_lib "JArr []" "lit ''oops''" ?cols]
  note Q0 = loaders_default [of Map.empty QA_CSV sample_lib "JArr []" "lit ''oops''" ?cols]
  note L1 = loaders_default [of ?g DOSDONTS_FILE sample_lib "JArr []" "lit ''oops''" ?cols]
  note Q1 = loaders_default [of ?q QA_CSV sample_lib "JArr []" "lit ''oops''" ?cols]
  have 1: "snd (load_json sample_lib DOSDONTS_FILE (JArr []) Map.empty) = [DOSDONTS_FILE \<mapsto> lit ''[]'']"
    using L0 e by (simp add: sample_dump_empty)
  have 2: "snd (load_json sample_lib DOSDONTS_FILE (JArr []) ?g) = ?g"
    using L1 g by simp
  have 3: "fst (load_json sample_lib DOSDONTS_FILE (JArr []) ?g) = JArr []"
    using L1 [THEN conjunct2, THEN conjunct2, THEN conjunct1] 2 g sample_load_garbage by simp
  have 4: "ensure_csv sample_lib QA_CSV ?cols Map.empty =
       (read_csv sample_lib (to_csv sample_lib \<lparr>columns = ?cols, rows = []\<rparr>),
        [QA_CSV \<mapsto> to_csv sample_lib \<lparr>columns = ?cols, rows = []\<rparr>])"
    using Q0 e by simp
  have 5: "ensure_csv sample_lib QA_CSV ?cols ?q = (read_csv sample_lib (lit ''oops''), ?q)"
    using Q1 q by simp
  have 6: "load_dos_donts sample_lib DOSDONTS_FILE Map.empty = JArr []"
    using L0 e by simp
  have 7: "load_dos_donts sample_lib DOSDONTS_FILE ?g = JArr []"
    using L1 g sample_load_garbage by simp
  from 1 2 3 4 5 6 7 show ?thesis by (intro conjI)
qed



text \<open>
  C10: when the file holds the list \<open>ds\<close>, submitting the form appends the entry of the
  two stripped fields to the list and writes the list to the file if and only if one of
  the stripped fields is not empty; when both are blank it shows the warning and leaves
  the list and the files as they are.
\<close>

theorem add_dos_donts_iff:
  assumes "load_json lib DOSDONTS_FILE (JArr []) fs = (JArr ds, fs')"
  shows "((\<exists>n. dos_donts_tab lib (Some (do_text, dont_text)) fs =
        Inr (JArr (ds @ [JObj [(lit ''do'', JStr (strip do_text)), (lit ''dont'', JStr (strip dont_text))]]),
             fs'(DOSDONTS_FILE \<mapsto> json_dump lib
                  (JArr (ds @ [JObj [(lit ''do'', JStr (strip do_text)), (lit ''dont'', JStr (strip dont_text))]]))),
             n))
     \<longleftrightarrow> strip do_text \<noteq> [] \<or> strip dont_text \<noteq> [])
   \<and> (strip do_text = [] \<and> strip dont_text = [] \<longrightarrow>
        dos_donts_tab lib (Some (do_text, dont_text)) fs =
          Inr (JArr ds, fs', Some (Warning (lit ''Please fill at least one field.''))))"
  using assms
  by (auto simp: dos_donts_tab_def submit_add_dos_donts_def save_json_def Let_def)

lemma sample_load_empty_list: "json_load sample_lib (lit ''[]'') = Some (JArr [])"
  by (simp add: sample_lib_def sample_json_load_def sample_documents_def lit_def)



lemma strip_blank: "strip (lit ''  '') = []"
  by (simp add: strip_def lstrip_def rstrip_def isspace_def lit_def)

lemma strip_Greet_short: "strip (lit '' Greet '') = lit ''Greet''"
  by (simp add: strip_def lstrip_def rstrip_def isspace_def lit_def)

theorem add_dos_donts_iff_witness:
  "(\<exists>n. dos_donts_tab sample_lib (Some (lit '' Greet '', lit ''  '')) [DOSDONTS_FILE \<mapsto> lit ''[]''] =
        Inr (JArr [JObj [(lit ''do'', JStr (lit ''Greet'')), (lit ''dont'', JStr [])]],
             [DOSDONTS_FILE \<mapsto> json_dump sample_lib
                (JArr [JObj [(lit ''do'', JStr (lit ''Greet'')), (lit ''dont'', JStr [])]])],
             n))
   \<and> dos_donts_tab sample_lib (Some (lit ''  '', lit ''  '')) [DOSDONTS_FILE \<mapsto> lit ''[]''] =
        Inr (JArr [], [DOSDONTS_FILE \<mapsto> lit ''[]''],
             Some (Warning (lit ''Please fill at least one field.'')))"
proof -
  let ?fs = "[DOSDONTS_FILE \<mapsto> lit ''[]'']"
  have l: "load_json sample_lib DOSDONTS_FILE (JArr []) ?fs = (JArr [], ?fs)"
    by (simp add: load_json_def sample_load_empty_list)
  have ne: "strip (lit '' Greet '') \<noteq> [] \<or> strip (lit ''  '') \<noteq> []"
    unfolding strip_Greet_short by (simp add: lit_def)
  have bl: "strip (lit ''  '') = [] \<and> strip (lit ''  '') = []"
    by (simp add: strip_blank)
  note A = add_dos_donts_iff [OF l, of "lit '' Greet ''" "lit ''  ''", THEN conjunct1, THEN iffD2, OF ne]
  note B = add_dos_donts_iff [OF l, of "lit ''  ''" "lit ''  ''", THEN conjunct2, THEN mp, OF bl]
  from A B show ?thesis by (simp add: strip_Greet_short strip_blank)
qed

section \<open>The parsing of the log\<close>

lemma split_on_not_Nil: "split_on sep s \<noteq> []"
  by (induction s) (auto split: list.splits)

lemma length_split_on: "length (split_on sep s) = Suc (count_list s sep)"
  by (induction s) (auto split: list.splits simp: split_on_not_Nil)

lemma rstrip_snoc_space: "isspace w \<Longrightarrow> rstrip (s @ [w]) = rstrip s"
  by (simp add: rstrip_def)

lemma strip_Cons_space: "isspace w \<Longrightarrow> strip (w # s) = strip s"
  by (simp add: strip_def lstrip_def)

lemma strip_snoc_space:
  assumes "isspace w"
  shows "strip (s @ [w]) = strip s"
proof (cases "\<forall>x \<in> set s. isspace x")
  case True
  then have "dropWhile isspace (s @ [w]) = []" and "dropWhile isspace s = []"
    using assms by simp_all
  then show ?thesis by (simp only: strip_def lstrip_def)
next
  case False
  then obtain x where "x \<in> set s" and "\<not> isspace x" by blast
  then have "dropWhile isspace (s @ [w]) = dropWhile isspace s @ [w]"
    by (rule dropWhile_append1)
  then show ?thesis using assms by (simp add: strip_def lstrip_def rstrip_snoc_space)
qed

lemma split_on_snoc_other:
  "w \<noteq> sep \<Longrightarrow>
   split_on sep (s @ [w]) = butlast (split_on sep s) @ [last (split_on sep s) @ [w]]"
proof (induction s)
  case Nil
  then show ?case by simp
next
  case (Cons c s)
  obtain p ps where ps: "split_on sep s = p # ps"
    using split_on_not_Nil by (cases "split_on sep s") auto
  obtain q qs where qs: "split_on sep (s @ [w]) = q # qs"
    using split_on_not_Nil by (cases "split_on sep (s @ [w])") auto
  from Cons ps qs have eq: "q # qs = butlast (p # ps) @ [last (p # ps) @ [w]]" by simp
  show ?case
  proof (cases "c = sep")
    case True
    then show ?thesis using ps qs eq by simp
  next
    case False
    then show ?thesis using ps qs eq by (cases ps) auto
  qed
qed

lemma parts_lstrip:
  assumes "\<not> isspace sep"
  shows "map strip (split_on sep (lstrip s)) = map strip (split_on sep s)"
proof (induction s)
  case Nil
  then show ?case by (simp add: lstrip_def)
next
  case (Cons c s)
  show ?case
  proof (cases "isspace c")
    case True
    with assms have "c \<noteq> sep" by auto
    then have "map strip (split_on sep (c # s)) = map strip (split_on sep s)"
      using True split_on_not_Nil [of sep s]
      by (cases "split_on sep s") (simp_all add: strip_Cons_space)
    with Cons True show ?thesis by (simp add: lstrip_def)
  next
    case False
    then show ?thesis by (simp add: lstrip_def)
  qed
qed

lemma parts_snoc_space:
  assumes "\<not> isspace sep" and "isspace w"
  shows "map strip (split_on sep (s @ [w])) = map strip (split_on sep s)"
proof -
  from assms have "w \<noteq> sep" by auto
  then have "map strip (split_on sep (s @ [w])) =
      map strip (butlast (split_on sep s)) @ [strip (last (split_on sep s) @ [w])]"
    by (simp add: split_on_snoc_other)
  also have "\<dots> = map strip (butlast (split_on sep s) @ [last (split_on sep s)])"
    using assms(2) by (simp add: strip_snoc_space)
  also have "\<dots> = map strip (split_on sep s)"
    by (simp add: split_on_not_Nil)
  finally show ?thesis .
qed

lemma parts_append_spaces:
  assumes "\<not> isspace sep" and "\<forall>x \<in> set ws. isspace x"
  shows "map strip (split_on sep (s @ ws)) = map strip (split_on sep s)"
  using assms(2)
proof (induction ws rule: rev_induct)
  case Nil
  then show ?case by simp
next
  case (snoc w ws)
  then have w: "isspace w" and ws: "\<forall>x \<in> set ws. isspace x" by simp_all
  have "map strip (split_on sep ((s @ ws) @ [w])) = map strip (split_on sep (s @ ws))"
    using assms(1) w by (rule parts_snoc_space)
  also have "\<dots> = map strip (split_on sep s)"
    using ws by (rule snoc.IH)
  finally show ?case by simp
qed

lemma rstrip_decompose: "\<exists>ws. s = rstrip s @ ws \<and> (\<forall>x \<in> set ws. isspace x)"
proof -
  have "rev (takeWhile isspace (rev s) @ dropWhile isspace (rev s)) = rev (rev s)"
    by (simp only: takeWhile_dropWhile_id)
  then have "s = rstrip s @ rev (takeWhile isspace (rev s))"
    by (simp only: rstrip_def rev_append rev_rev_ident)
  moreover have "\<forall>x \<in> set (rev (takeWhile isspace (rev s))). isspace x"
    by (auto dest: set_takeWhileD)
  ultimately show ?thesis by blast
qed

lemma parts_rstrip:
  assumes "\<not> isspace sep"
  shows "map strip (split_on sep (rstrip s)) = map strip (split_on sep s)"
proof -
  obtain ws where ws: "s = rstrip s @ ws" "\<forall>x \<in> set ws. isspace x"
    using rstrip_decompose by blast
  have "map strip (split_on sep (rstrip s @ ws)) = map strip (split_on sep (rstrip s))"
    using assms ws(2) by (rule parts_append_spaces)
  with ws(1) show ?thesis by simp
qed

lemma bar_not_space: "\<not> isspace 124"
  by (simp add: isspace_def)

lemma parts_strip: "map strip (split_on 124 (strip line)) = line_parts line"
  by (simp add: strip_def line_parts_def parts_rstrip parts_lstrip bar_not_space)

lemma parse_log_append: "parse_log f log_lines = log_lines @ spec_rows f"
proof (induction f arbitrary: log_lines)
  case Nil
  then show ?case by (simp add: spec_rows_def)
next
  case (Cons line f)
  show ?case
    by (simp add: parts_strip Let_def Cons.IH spec_rows_def line_row_def line_intent_def)
qed

text \<open>
  C6: the rows the loop builds are those of the specification: each line is split on the
  bar and the parts are stripped, the lines with at least 8 parts are kept, in order, and
  a kept line gives the parts at positions 0, 3, 4, 5 and 6, then its intent (the group
  of the leftmost match of \<open>Intent: (.+)\<close> in the line, or \<open>Unknown\<close>), then the part at
  position 7.
\<close>

theorem parse_log_rows:
  "parse_log f [] = spec_rows f"
  by (simp add: parse_log_append)

subsection \<open>The regular expression\<close>

lemma length_Intent: "length (lit ''Intent: '') = 8"
  by (simp add: lit_def)

lemma intent_match_Nil: "intent_match [] = None"
  by (simp add: intent_match_def lit_def)

text \<open>A match at the start of \<open>s\<close>, said without the functions of lists.\<close>

lemma intent_match_iff:
  "intent_match s = Some g \<longleftrightarrow>
     (\<exists>post. s = lit ''Intent: '' @ g @ post \<and> g \<noteq> [] \<and> 10 \<notin> set g \<and> (post = [] \<or> hd post = 10))"
proof
  assume m: "intent_match s = Some g"
  then have p: "prefix (lit ''Intent: '') s"
    and g: "g = takeWhile (\<lambda>c. c \<noteq> 10) (drop 8 s)" and ne: "g \<noteq> []"
    by (auto simp: intent_match_def Let_def split: if_splits)
  from p obtain rest where rest: "s = lit ''Intent: '' @ rest" by (auto simp: prefix_def)
  then have d: "drop 8 s = rest" by (simp add: length_Intent)
  let ?post = "dropWhile (\<lambda>c. c \<noteq> 10) rest"
  have "rest = g @ ?post" using g d by simp
  with rest have "s = lit ''Intent: '' @ g @ ?post" by simp
  moreover have "10 \<notin> set g" using g by (auto dest: set_takeWhileD)
  moreover have "?post = [] \<or> hd ?post = 10"
    using hd_dropWhile [of "\<lambda>c. c \<noteq> 10" rest] by auto
  ultimately show "\<exists>post. s = lit ''Intent: '' @ g @ post \<and> g \<noteq> [] \<and> 10 \<notin> set g \<and> (post = [] \<or> hd post = 10)"
    using ne by blast
next
  assume "\<exists>post. s = lit ''Intent: '' @ g @ post \<and> g \<noteq> [] \<and> 10 \<notin> set g \<and> (post = [] \<or> hd post = 10)"
  then obtain post where s: "s = lit ''Intent: '' @ g @ post" and ne: "g \<noteq> []"
    and nl: "10 \<notin> set g" and post: "post = [] \<or> hd post = 10" by blast
  have p: "prefix (lit ''Intent: '') s" using s by simp
  have d: "drop 8 s = g @ post" using s by (simp add: length_Intent)
  have "takeWhile (\<lambda>c. c \<noteq> 10) (g @ post) = g"
  proof (cases post)
    case Nil
    then show ?thesis using nl by (auto intro: takeWhile_eq_all_conv [THEN iffD2])
  next
    case (Cons c cs)
    with post have "c = 10" by simp
    with Cons nl show ?thesis by (auto simp: takeWhile_tail)
  qed
  with p d ne show "intent_match s = Some g" by (simp add: intent_match_def)
qed

text \<open>The search returns the match at the leftmost position that has one.\<close>

lemma intent_search_leftmost:
  "intent_search s = Some g \<longleftrightarrow>
     (\<exists>n. intent_match (drop n s) = Some g \<and> (\<forall>m<n. intent_match (drop m s) = None))"
proof (induction s)
  case Nil
  then show ?case by (simp add: intent_match_Nil)
next
  case (Cons c cs)
  show ?case
  proof (cases "intent_match (c # cs)")
    case (Some g0)
    have "(\<exists>n. intent_match (drop n (c # cs)) = Some g \<and> (\<forall>m<n. intent_match (drop m (c # cs)) = None))
          \<longleftrightarrow> g = g0"
    proof
      assume "\<exists>n. intent_match (drop n (c # cs)) = Some g \<and> (\<forall>m<n. intent_match (drop m (c # cs)) = None)"
      then obtain n where n: "intent_match (drop n (c # cs)) = Some g"
        "\<forall>m<n. intent_match (drop m (c # cs)) = None" by blast
      have "n = 0"
      proof (rule ccontr)
        assume "n \<noteq> 0"
        then have "intent_match (drop 0 (c # cs)) = None" using n(2) by blast
        with Some show False by simp
      qed
      with n(1) Some show "g = g0" by simp
    next
      assume "g = g0"
      with Some have "intent_match (drop 0 (c # cs)) = Some g \<and> (\<forall>m<0. intent_match (drop m (c # cs)) = None)"
        by simp
      then show "\<exists>n. intent_match (drop n (c # cs)) = Some g \<and> (\<forall>m<n. intent_match (drop m (c # cs)) = None)"
        by blast
    qed
    with Some show ?thesis by auto
  next
    case None
    have "(\<exists>n. intent_match (drop n (c # cs)) = Some g \<and> (\<forall>m<n. intent_match (drop m (c # cs)) = None))
          \<longleftrightarrow> (\<exists>n. intent_match (drop n cs) = Some g \<and> (\<forall>m<n. intent_match (drop m cs) = None))"
    proof
      assume "\<exists>n. intent_match (drop n (c # cs)) = Some g \<and> (\<forall>m<n. intent_match (drop m (c # cs)) = None)"
      then obtain n where n: "intent_match (drop n (c # cs)) = Some g"
        "\<forall>m<n. intent_match (drop m (c # cs)) = None" by blast
      from n(1) None obtain k where k: "n = Suc k" by (cases n) auto
      with n(1) have 1: "intent_match (drop k cs) = Some g" by simp
      have 2: "\<forall>m<k. intent_match (drop m cs) = None"
      proof (intro allI impI)
        fix m assume "m < k"
        then have "Suc m < n" using k by simp
        with n(2) have "intent_match (drop (Suc m) (c # cs)) = None" by blast
        then show "intent_match (drop m cs) = None" by simp
      qed
      from 1 2 show "\<exists>n. intent_match (drop n cs) = Some g \<and> (\<forall>m<n. intent_match (drop m cs) = None)"
        by blast
    next
      assume "\<exists>n. intent_match (drop n cs) = Some g \<and> (\<forall>m<n. intent_match (drop m cs) = None)"
      then obtain k where k: "intent_match (drop k cs) = Some g"
        "\<forall>m<k. intent_match (drop m cs) = None" by blast
      have 1: "intent_match (drop (Suc k) (c # cs)) = Some g" using k(1) by simp
      have 2: "\<forall>m<Suc k. intent_match (drop m (c # cs)) = None"
      proof (intro allI impI)
        fix m assume m: "m < Suc k"
        show "intent_match (drop m (c # cs)) = None"
        proof (cases m)
          case 0
          with None show ?thesis by simp
        next
          case (Suc j)
          with m k(2) show ?thesis by simp
        qed
      qed
      from 1 2 show "\<exists>n. intent_match (drop n (c # cs)) = Some g \<and> (\<forall>m<n. intent_match (drop m (c # cs)) = None)"
        by blast
    qed
    with None Cons.IH show ?thesis by simp
  qed
qed


theorem parse_log_rows_witness:
  "parse_log sample_log [] =
     [[lit ''t0'', lit ''web'', lit ''s1'', lit ''hi'', lit ''hello'', lit ''greet'', lit ''Guest''],
      [lit ''t2'', lit ''sms'', lit ''s2'', lit ''pool?'', lit ''9am'', lit ''Unknown'', lit ''Non-Guest'']]"
proof -
  have p0: "line_parts (sample_log ! 0) =
      [lit ''t0'', lit ''INFO'', lit ''bot'', lit ''web'', lit ''s1'', lit ''hi'', lit ''hello'',
       lit ''Guest'', lit ''Intent: greet'']"
    by (simp add: sample_log_def line_parts_def strip_def lstrip_def rstrip_def isspace_def lit_def)
  have p1: "line_parts (sample_log ! Suc 0) = [lit ''t1'', lit ''INFO'', lit ''started'']"
    by (simp add: sample_log_def line_parts_def strip_def lstrip_def rstrip_def isspace_def lit_def)
  have p2: "line_parts (sample_log ! 2) =
      [lit ''t2'', lit ''WARN'', lit ''bot'', lit ''sms'', lit ''s2'', lit ''pool?'', lit ''9am'',
       lit ''Non-Guest'']"
    by (simp add: sample_log_def line_parts_def strip_def lstrip_def rstrip_def isspace_def lit_def)
  have i0: "line_intent (sample_log ! 0) = lit ''greet''"
    by (simp add: sample_log_def line_intent_def intent_match_def lit_def)
  have i2: "line_intent (sample_log ! 2) = lit ''Unknown''"
    by (simp add: sample_log_def line_intent_def intent_match_def lit_def)
  have l: "sample_log = [sample_log ! 0, sample_log ! Suc 0, sample_log ! 2]"
    by (simp add: sample_log_def)
  have "spec_rows sample_log =
     [[lit ''t0'', lit ''web'', lit ''s1'', lit ''hi'', lit ''hello'', lit ''greet'', lit ''Guest''],
      [lit ''t2'', lit ''sms'', lit ''s2'', lit ''pool?'', lit ''9am'', lit ''Unknown'', lit ''Non-Guest'']]"
    by (subst l) (simp add: spec_rows_def line_row_def p0 p1 p2 i0 i2)
  with parse_log_rows [of sample_log] show ?thesis by simp
qed

end
